theory Spec2Isabelle
  imports Main "HOL-Library.AList" "HOL-Library.Char_ord" "HOL-Library.List_Lexorder"
begin

section \<open>Python values and dictionaries\<close>

text \<open>
  The handlers of \<^verbatim>\<open>src/backend/routers/announcements.py\<close> work on dictionaries
  \<^verbatim>\<open>Dict[str, Any]\<close>. The values that occur are \<^verbatim>\<open>None\<close>, strings and the
  identifier the store assigns to a document (an \<^verbatim>\<open>ObjectId\<close>, given by its hexadecimal
  text). A dictionary is an association list in insertion order: \<^verbatim>\<open>d[k] = v\<close> is
  \<open>AList.update k v d\<close>, \<^verbatim>\<open>d.pop(k, None)\<close> is \<open>AList.delete k d\<close>, and a lookup is
  \<open>map_of d k\<close>.
\<close>

datatype pyval = PNone | PStr string | PObjectId string

type_synonym doc = "(string \<times> pyval) list"

text \<open>\<^verbatim>\<open>str(v)\<close>.\<close>

fun py_str :: "pyval \<Rightarrow> string" where
  "py_str PNone = ''None''"
| "py_str (PStr s) = s"
| "py_str (PObjectId h) = h"

text \<open>\<^verbatim>\<open>d.get(k, default)\<close>.\<close>

definition dict_get :: "doc \<Rightarrow> string \<Rightarrow> pyval \<Rightarrow> pyval" where
  "dict_get d k dflt = (case map_of d k of None \<Rightarrow> dflt | Some v \<Rightarrow> v)"

text \<open>An \<^verbatim>\<open>Optional[str]\<close> argument as the value it is stored as.\<close>

definition opt_val :: "string option \<Rightarrow> pyval" where
  "opt_val x = (case x of None \<Rightarrow> PNone | Some s \<Rightarrow> PStr s)"

datatype error =
    HTTPException nat string
  | KeyError string
  | TypeError
  | DuplicateKeyError

section \<open>The document store\<close>

text \<open>
  Modelled from the spec: the module \<^verbatim>\<open>..database\<close>, which binds
  \<^verbatim>\<open>announcements_collection\<close> and \<^verbatim>\<open>teachers_collection\<close>, is not among the
  sources. The spec names it a Document Store with "generic create/find/update/delete-by-filter
  capability". A collection is the list of its documents in store order. A filter is the
  fragment of the query language the handlers build: a field compared with a value
  (equality, \<^verbatim>\<open>$lte\<close>, \<^verbatim>\<open>$gte\<close>), \<^verbatim>\<open>$or\<close> over filters, and a filter
  document, which is the conjunction of its entries (\<^verbatim>\<open>{}\<close> matches every document).
\<close>

datatype fcond = EqTo pyval | LteTo pyval | GteTo pyval

datatype query = Field string fcond | AnyOf "query list" | AllOf "query list"

text \<open>
  Modelled from the spec: ordering of stored values. Values of one kind are compared with each
  other, strings byte by byte ("lexical string comparison"); values of different kinds are
  never related.
\<close>

fun val_le :: "pyval \<Rightarrow> pyval \<Rightarrow> bool" where
  "val_le (PStr a) (PStr b) = (a \<le> b)"
| "val_le (PObjectId a) (PObjectId b) = (a \<le> b)"
| "val_le PNone PNone = True"
| "val_le _ _ = False"

text \<open>
  Modelled from the spec: a field condition against the field's value, \<open>None\<close> when the
  document has no such field. A missing field is treated as a null one ("absent OR ...").
\<close>

fun cond_holds :: "fcond \<Rightarrow> pyval option \<Rightarrow> bool" where
  "cond_holds (EqTo v) None = (v = PNone)"
| "cond_holds (EqTo v) (Some w) = (w = v)"
| "cond_holds (LteTo v) None = (v = PNone)"
| "cond_holds (LteTo v) (Some w) = val_le w v"
| "cond_holds (GteTo v) None = (v = PNone)"
| "cond_holds (GteTo v) (Some w) = val_le v w"

fun matches :: "query \<Rightarrow> doc \<Rightarrow> bool" where
  "matches (Field k c) d = cond_holds c (map_of d k)"
| "matches (AnyOf qs) d = list_ex (\<lambda>q. matches q d) qs"
| "matches (AllOf qs) d = list_all (\<lambda>q. matches q d) qs"

text \<open>Modelled from the spec: \<^verbatim>\<open>collection.find(query)\<close>, the matching documents in store order.\<close>

definition find_coll :: "query \<Rightarrow> doc list \<Rightarrow> doc list" where
  "find_coll q coll = filter (matches q) coll"

text \<open>Modelled from the spec: \<^verbatim>\<open>collection.find_one(query)\<close>, the first matching document or \<^verbatim>\<open>None\<close>.\<close>

definition find_one :: "query \<Rightarrow> doc list \<Rightarrow> doc option" where
  "find_one q coll = List.find (matches q) coll"

text \<open>Modelled from the spec: the patch \<^verbatim>\<open>{"$set": update}\<close> applied to one document.\<close>

definition set_fields :: "doc \<Rightarrow> doc \<Rightarrow> doc" where
  "set_fields upd d = fold (\<lambda>(k, v). AList.update k v) upd d"

text \<open>
  Modelled from the spec: \<^verbatim>\<open>collection.update_one(filter, {"$set": update})\<close> patches the first
  matching document; the second component is \<^verbatim>\<open>matched_count\<close>.
\<close>

fun update_one :: "query \<Rightarrow> doc \<Rightarrow> doc list \<Rightarrow> doc list \<times> nat" where
  "update_one q upd [] = ([], 0)"
| "update_one q upd (d # ds) =
     (if matches q d then (set_fields upd d # ds, 1)
      else (case update_one q upd ds of (ds', n) \<Rightarrow> (d # ds', n)))"

text \<open>
  Modelled from the spec: \<^verbatim>\<open>collection.delete_one(filter)\<close> removes the first matching
  document; the second component is \<^verbatim>\<open>deleted_count\<close>.
\<close>

fun delete_one :: "query \<Rightarrow> doc list \<Rightarrow> doc list \<times> nat" where
  "delete_one q [] = ([], 0)"
| "delete_one q (d # ds) =
     (if matches q d then (ds, 1)
      else (case delete_one q ds of (ds', n) \<Rightarrow> (d # ds', n)))"

text \<open>
  Modelled from the spec: \<^verbatim>\<open>collection.insert_one(document)\<close>. The store assigns the
  identifier: a document without the key \<^verbatim>\<open>_id\<close> receives the identifier \<open>new_id\<close> the
  store generates, written into the caller's dictionary under \<^verbatim>\<open>_id\<close> (the driver adds the
  key to the dictionary it is handed). Identifiers are unique in a collection, so an
  identifier already in use is refused. The result is the new collection, the caller's
  dictionary after the call, and \<^verbatim>\<open>inserted_id\<close>.
\<close>

definition insert_one :: "pyval \<Rightarrow> doc \<Rightarrow> doc list \<Rightarrow> error + (doc list \<times> doc \<times> pyval)" where
  "insert_one new_id document coll =
     (let document' = (if map_of document ''_id'' = None
                       then AList.update ''_id'' new_id document else document);
          inserted_id = dict_get document' ''_id'' PNone
      in if list_ex (\<lambda>d. map_of d ''_id'' = Some inserted_id) coll
         then Inl DuplicateKeyError
         else Inr (coll @ [document'], document', inserted_id))"

text \<open>The two module-level collections the handlers share.\<close>

record db =
  teachers_collection :: "doc list"
  announcements_collection :: "doc list"

section \<open>The handlers\<close>

text \<open>
  \<^verbatim>\<open>require_auth(username)\<close>: the principal record stored under \<^verbatim>\<open>_id = username\<close>, or
  401. \<^verbatim>\<open>not user\<close> holds for \<^verbatim>\<open>None\<close> and for an empty dictionary.
\<close>

definition require_auth :: "string \<Rightarrow> db \<Rightarrow> error + doc" where
  "require_auth username s =
     (let user = find_one (AllOf [Field ''_id'' (EqTo (PStr username))]) (teachers_collection s)
      in if user = None \<or> user = Some []
         then Inl (HTTPException 401 ''Authentication required'')
         else Inr (the user))"

text \<open>
  The two lines every listing and update applies to a document read from the store:
  \<^verbatim>\<open>ann["id"] = str(ann.get("_id", ""))\<close>, then \<^verbatim>\<open>ann.pop("_id", None)\<close>.
\<close>

definition expose_id :: "doc \<Rightarrow> doc" where
  "expose_id ann =
     AList.delete ''_id'' (AList.update ''id'' (PStr (py_str (dict_get ann ''_id'' (PStr '''')))) ann)"

text \<open>
  \<^verbatim>\<open>get_announcements(active_only)\<close>; \<open>now\<close> is \<^verbatim>\<open>datetime.utcnow().isoformat()\<close>.
\<close>

definition get_announcements :: "bool \<Rightarrow> string \<Rightarrow> db \<Rightarrow> (error + doc list) \<times> db" where
  "get_announcements active_only now s =
     (let query = (if active_only
                   then AllOf [AnyOf [AllOf [Field ''start_date'' (EqTo PNone)],
                                      AllOf [Field ''start_date'' (LteTo (PStr now))]],
                               Field ''expiration_date'' (GteTo (PStr now))]
                   else AllOf []);
          anns = find_coll query (announcements_collection s)
      in (Inr (map expose_id anns), s))"

text \<open>
  \<^verbatim>\<open>create_announcement(message, expiration_date, start_date, username)\<close>. The dependency
  \<^verbatim>\<open>require_auth\<close> runs before the body and hands it the principal record. Python does not
  enforce the annotation \<^verbatim>\<open>str\<close>: \<^verbatim>\<open>not expiration_date\<close> holds for \<^verbatim>\<open>None\<close> and for the
  empty string. \<open>new_id\<close> is the identifier the store generates for the insertion.
\<close>

definition create_announcement ::
  "pyval \<Rightarrow> string \<Rightarrow> string option \<Rightarrow> string option \<Rightarrow> string \<Rightarrow> db \<Rightarrow> (error + doc) \<times> db" where
  "create_announcement new_id message expiration_date start_date username s =
     (case require_auth username s of
        Inl e \<Rightarrow> (Inl e, s)
      | Inr user \<Rightarrow>
          if expiration_date = None \<or> expiration_date = Some ''''
          then (Inl (HTTPException 400 ''Expiration date required''), s)
          else (case map_of user ''username'' of
                  None \<Rightarrow> (Inl (KeyError ''username''), s)
                | Some created_by \<Rightarrow>
                    let ann = [(''message'', PStr message),
                               (''start_date'', opt_val start_date),
                               (''expiration_date'', opt_val expiration_date),
                               (''created_by'', created_by)]
                    in (case insert_one new_id ann (announcements_collection s) of
                          Inl e \<Rightarrow> (Inl e, s)
                        | Inr (coll', ann', inserted_id) \<Rightarrow>
                            (Inr (AList.update ''id'' (PStr (py_str inserted_id)) ann'),
                             s\<lparr>announcements_collection := coll'\<rparr>))))"

text \<open>
  \<^verbatim>\<open>update_announcement(announcement_id, message, expiration_date, start_date, username)\<close>.
  A \<^verbatim>\<open>None\<close> returned by the read-back \<^verbatim>\<open>find_one\<close> makes \<^verbatim>\<open>ann["id"] = ...\<close> raise
  \<^verbatim>\<open>TypeError\<close>.
\<close>

definition update_announcement ::
  "string \<Rightarrow> string option \<Rightarrow> string option \<Rightarrow> string option \<Rightarrow> string \<Rightarrow> db \<Rightarrow> (error + doc) \<times> db" where
  "update_announcement announcement_id message expiration_date start_date username s =
     (case require_auth username s of
        Inl e \<Rightarrow> (Inl e, s)
      | Inr user \<Rightarrow>
          let update = [];
              update = (case message of
                          None \<Rightarrow> update | Some m \<Rightarrow> AList.update ''message'' (PStr m) update);
              update = (case expiration_date of
                          None \<Rightarrow> update | Some e \<Rightarrow> AList.update ''expiration_date'' (PStr e) update);
              update = (case start_date of
                          None \<Rightarrow> update | Some d \<Rightarrow> AList.update ''start_date'' (PStr d) update)
          in if update = []
             then (Inl (HTTPException 400 ''No update fields provided''), s)
             else (case update_one (AllOf [Field ''_id'' (EqTo (PStr announcement_id))]) update
                          (announcements_collection s) of
                     (coll', matched_count) \<Rightarrow>
                       let s' = s\<lparr>announcements_collection := coll'\<rparr>
                       in if matched_count = 0
                          then (Inl (HTTPException 404 ''Announcement not found''), s')
                          else (case find_one (AllOf [Field ''_id'' (EqTo (PStr announcement_id))])
                                       (announcements_collection s') of
                                  None \<Rightarrow> (Inl TypeError, s')
                                | Some ann \<Rightarrow> (Inr (expose_id ann), s'))))"

text \<open>\<^verbatim>\<open>delete_announcement(announcement_id, username)\<close>.\<close>

definition delete_announcement :: "string \<Rightarrow> string \<Rightarrow> db \<Rightarrow> (error + doc) \<times> db" where
  "delete_announcement announcement_id username s =
     (case require_auth username s of
        Inl e \<Rightarrow> (Inl e, s)
      | Inr user \<Rightarrow>
          (case delete_one (AllOf [Field ''_id'' (EqTo (PStr announcement_id))])
                  (announcements_collection s) of
             (coll', deleted_count) \<Rightarrow>
               let s' = s\<lparr>announcements_collection := coll'\<rparr>
               in if deleted_count = 0
                  then (Inl (HTTPException 404 ''Announcement not found''), s')
                  else (Inr [(''message'', PStr ''Announcement deleted'')], s')))"

section \<open>Predicates of the specification and sample stores\<close>

text \<open>A principal record with the caller's identity string exists in the principal store.\<close>

definition has_principal :: "string \<Rightarrow> db \<Rightarrow> bool" where
  "has_principal username s =
     list_ex (\<lambda>d. map_of d ''_id'' = Some (PStr username)) (teachers_collection s)"

text \<open>An announcement is stored under the given identifier.\<close>

definition has_announcement :: "string \<Rightarrow> db \<Rightarrow> bool" where
  "has_announcement announcement_id s =
     list_ex (\<lambda>d. map_of d ''_id'' = Some (PStr announcement_id)) (announcements_collection s)"

text \<open>The outcome is the unauthorized response (status 401).\<close>

definition unauthorized :: "error + 'a \<Rightarrow> bool" where
  "unauthorized r = (case r of Inl (HTTPException code detail) \<Rightarrow> code = 401 | _ \<Rightarrow> False)"

text \<open>
  The store keeps identifiers unique within a collection. The empty collection satisfies this
  and every handler preserves it (\<open>handlers_keep_ids_unique\<close> below).
\<close>

definition unique_ids :: "doc list \<Rightarrow> bool" where
  "unique_ids coll = distinct (map (\<lambda>d. map_of d ''_id'') coll)"

text \<open>
  The active window in the spec's words: \<^verbatim>\<open>start_date\<close> is absent (or null) or
  \<^verbatim>\<open>start_date\<close> \<open>\<le>\<close> now, and \<^verbatim>\<open>expiration_date\<close> \<open>\<ge>\<close> now, both as strings.
\<close>

definition spec_active :: "string \<Rightarrow> doc \<Rightarrow> bool" where
  "spec_active now d =
     ((case map_of d ''start_date'' of
         None \<Rightarrow> True
       | Some PNone \<Rightarrow> True
       | Some (PStr start_date) \<Rightarrow> start_date \<le> now
       | Some (PObjectId _) \<Rightarrow> False)
      \<and> (case map_of d ''expiration_date'' of
            Some (PStr expiration_date) \<Rightarrow> now \<le> expiration_date
          | _ \<Rightarrow> False))"

text \<open>The record holds an \<^verbatim>\<open>expiration_date\<close> string.\<close>

definition has_expiration :: "doc \<Rightarrow> bool" where
  "has_expiration d = (case map_of d ''expiration_date'' of Some (PStr e) \<Rightarrow> True | _ \<Rightarrow> False)"

text \<open>
  The dictionary \<^verbatim>\<open>update\<close> that \<open>update_announcement\<close> builds, in closed form
  (\<open>update_announcement_alt\<close> below relates the two).
\<close>

definition update_doc :: "string option \<Rightarrow> string option \<Rightarrow> string option \<Rightarrow> doc" where
  "update_doc message expiration_date start_date =
     (case message of None \<Rightarrow> [] | Some m \<Rightarrow> [(''message'', PStr m)])
     @ (case expiration_date of None \<Rightarrow> [] | Some e \<Rightarrow> [(''expiration_date'', PStr e)])
     @ (case start_date of None \<Rightarrow> [] | Some d \<Rightarrow> [(''start_date'', PStr d)])"

text \<open>A store with one teacher and two announcements.\<close>

definition demo_db :: db where
  "demo_db =
     \<lparr>teachers_collection =
        [[(''_id'', PStr ''jdoe''), (''username'', PStr ''jdoe''), (''display_name'', PStr ''J. Doe'')]],
      announcements_collection =
        [[(''_id'', PStr ''a1''), (''message'', PStr ''Picture day''), (''start_date'', PNone),
          (''expiration_date'', PStr ''2025-01-10T00:00:00''), (''created_by'', PStr ''jdoe'')],
         [(''_id'', PStr ''a2''), (''message'', PStr ''Science fair''),
          (''start_date'', PStr ''2025-03-01T00:00:00''),
          (''expiration_date'', PStr ''2025-03-31T00:00:00''), (''created_by'', PStr ''jdoe'')]]\<rparr>"

text \<open>A store whose teacher record is keyed \<^verbatim>\<open>jdoe\<close> and carries another \<^verbatim>\<open>username\<close>.\<close>

definition alias_db :: db where
  "alias_db =
     \<lparr>teachers_collection = [[(''_id'', PStr ''jdoe''), (''username'', PStr ''John Doe'')]],
      announcements_collection = []\<rparr>"

section \<open>Auxiliary facts\<close>

lemmas eval_db = demo_db_def alias_db_def has_principal_def has_announcement_def unique_ids_def

lemma unauthorized_simps [simp]:
  "unauthorized (Inl (HTTPException code detail)) \<longleftrightarrow> code = 401"
  "\<not> unauthorized (Inl (KeyError k))"
  "\<not> unauthorized (Inl TypeError)"
  "\<not> unauthorized (Inl DuplicateKeyError)"
  "\<not> unauthorized (Inr x)"
  by (simp_all add: unauthorized_def)

subsection \<open>Filters\<close>

lemma matches_id:
  "matches (AllOf [Field ''_id'' (EqTo (PStr a))]) d \<longleftrightarrow> map_of d ''_id'' = Some (PStr a)"
  by (cases "map_of d ''_id''") auto

lemma matches_id_fun:
  "matches (AllOf [Field ''_id'' (EqTo (PStr a))]) = (\<lambda>d. map_of d ''_id'' = Some (PStr a))"
  by (rule ext) (rule matches_id)

lemma active_query_matches:
  "matches (AllOf [AnyOf [AllOf [Field ''start_date'' (EqTo PNone)],
                          AllOf [Field ''start_date'' (LteTo (PStr now))]],
                   Field ''expiration_date'' (GteTo (PStr now))]) d
     \<longleftrightarrow> spec_active now d"
  by (simp add: spec_active_def split: option.splits pyval.splits)

lemma first_match_split:
  "list_ex P coll \<Longrightarrow> \<exists>pre d post. coll = pre @ d # post \<and> \<not> list_ex P pre \<and> P d"
  by (metis list_ex_iff split_list_first_prop)

lemma find_first:
  "\<not> list_ex P pre \<Longrightarrow> P d \<Longrightarrow> List.find P (pre @ d # post) = Some d"
  by (induction pre) auto

subsection \<open>The principal lookup\<close>

lemma find_Some_nonempty:
  "List.find (\<lambda>d. map_of d ''_id'' = Some v) coll = Some d \<Longrightarrow> d \<noteq> []"
  by (auto simp: find_Some_iff)

lemma require_auth_cases:
  "require_auth username s =
     (case List.find (\<lambda>d. map_of d ''_id'' = Some (PStr username)) (teachers_collection s) of
        None \<Rightarrow> Inl (HTTPException 401 ''Authentication required'')
      | Some user \<Rightarrow> Inr user)"
  by (auto simp: require_auth_def find_one_def matches_id_fun Let_def
      dest: find_Some_nonempty split: option.splits)

lemma require_auth_denied:
  "\<not> has_principal username s \<Longrightarrow>
     require_auth username s = Inl (HTTPException 401 ''Authentication required'')"
  by (auto simp: require_auth_cases has_principal_def list_ex_iff find_None_iff
      split: option.splits)

lemma require_auth_granted:
  "has_principal username s \<Longrightarrow>
     \<exists>user. require_auth username s = Inr user \<and> user \<in> set (teachers_collection s)
        \<and> map_of user ''_id'' = Some (PStr username)"
  by (auto simp: require_auth_cases has_principal_def list_ex_iff find_None_iff find_Some_iff
      split: option.splits)

subsection \<open>Store operations\<close>

lemma update_one_none:
  "\<not> list_ex (matches q) coll \<Longrightarrow> update_one q upd coll = (coll, 0)"
  by (induction coll) auto

lemma update_one_first:
  "\<not> list_ex (matches q) pre \<Longrightarrow> matches q d \<Longrightarrow>
     update_one q upd (pre @ d # post) = (pre @ set_fields upd d # post, 1)"
  by (induction pre) auto

lemma update_one_map:
  assumes "\<And>d. f (set_fields upd d) = f d"
  shows "map f (fst (update_one q upd coll)) = map f coll"
  by (induction coll) (auto simp: assms split: prod.splits)

lemma update_one_list_all:
  assumes "\<And>d. P d \<Longrightarrow> P (set_fields upd d)"
  shows "list_all P coll \<Longrightarrow> list_all P (fst (update_one q upd coll))"
  by (induction coll) (auto simp: assms split: prod.splits)

lemma delete_one_none:
  "\<not> list_ex (matches q) coll \<Longrightarrow> delete_one q coll = (coll, 0)"
  by (induction coll) auto

lemma delete_one_subseq:
  "distinct (map f coll) \<Longrightarrow>
     distinct (map f (fst (delete_one q coll))) \<and> set (fst (delete_one q coll)) \<subseteq> set coll"
  by (induction coll) (auto split: prod.splits)

lemma unique_rest:
  assumes "unique_ids (d # ds)" and "map_of d ''_id'' = Some v"
  shows "filter (\<lambda>x. map_of x ''_id'' \<noteq> Some v) ds = ds"
proof -
  from assms have "\<forall>x\<in>set ds. map_of x ''_id'' \<noteq> Some v"
    by (force simp: unique_ids_def)
  then show ?thesis
    by (simp add: filter_id_conv)
qed

lemma delete_one_unique:
  assumes "unique_ids coll" and "list_ex (\<lambda>d. map_of d ''_id'' = Some v) coll"
    and "matches q = (\<lambda>d. map_of d ''_id'' = Some v)"
  shows "delete_one q coll = (filter (\<lambda>d. map_of d ''_id'' \<noteq> Some v) coll, 1)"
  using assms(1,2)
proof (induction coll)
  case Nil
  then show ?case by simp
next
  case (Cons d ds)
  show ?case
  proof (cases "map_of d ''_id'' = Some v")
    case True
    with unique_rest [OF Cons.prems(1)] show ?thesis
      by (simp add: assms(3))
  next
    case False
    with Cons show ?thesis
      by (simp add: assms(3) unique_ids_def)
  qed
qed

lemma filter_removes_one:
  assumes "unique_ids coll" and "list_ex (\<lambda>d. map_of d ''_id'' = Some v) coll"
  shows "length (filter (\<lambda>d. map_of d ''_id'' \<noteq> Some v) coll) + 1 = length coll"
  using assms
proof (induction coll)
  case Nil
  then show ?case by simp
next
  case (Cons d ds)
  show ?case
  proof (cases "map_of d ''_id'' = Some v")
    case True
    with unique_rest [OF Cons.prems(1)] show ?thesis by simp
  next
    case False
    with Cons show ?thesis
      by (simp add: unique_ids_def)
  qed
qed

lemma insert_one_fresh:
  assumes "map_of document ''_id'' = None"
    and "\<not> list_ex (\<lambda>d. map_of d ''_id'' = Some new_id) coll"
  shows "insert_one new_id document coll
           = Inr (coll @ [document @ [(''_id'', new_id)]], document @ [(''_id'', new_id)], new_id)"
proof -
  from assms(1) have "AList.update ''_id'' new_id document = document @ [(''_id'', new_id)]"
    by (induction document) (auto split: if_splits)
  with assms show ?thesis
    by (simp add: insert_one_def Let_def dict_get_def map_add_def)
qed

subsection \<open>The handlers\<close>

lemma map_of_expose_id:
  "map_of (expose_id d) k =
     (if k = ''_id'' then None
      else if k = ''id'' then Some (PStr (py_str (dict_get d ''_id'' (PStr ''''))))
      else map_of d k)"
  by (simp add: expose_id_def delete_conv' update_conv')

lemma update_announcement_alt:
  "update_announcement announcement_id message expiration_date start_date username s =
     (case require_auth username s of
        Inl e \<Rightarrow> (Inl e, s)
      | Inr user \<Rightarrow>
          if message = None \<and> expiration_date = None \<and> start_date = None
          then (Inl (HTTPException 400 ''No update fields provided''), s)
          else (case update_one (AllOf [Field ''_id'' (EqTo (PStr announcement_id))])
                       (update_doc message expiration_date start_date) (announcements_collection s) of
                  (coll', matched_count) \<Rightarrow>
                    if matched_count = 0
                    then (Inl (HTTPException 404 ''Announcement not found''),
                          s\<lparr>announcements_collection := coll'\<rparr>)
                    else (case find_one (AllOf [Field ''_id'' (EqTo (PStr announcement_id))]) coll' of
                            None \<Rightarrow> (Inl TypeError, s\<lparr>announcements_collection := coll'\<rparr>)
                          | Some ann \<Rightarrow> (Inr (expose_id ann), s\<lparr>announcements_collection := coll'\<rparr>))))"
  by (cases message; cases expiration_date; cases start_date)
    (simp_all add: update_announcement_def update_doc_def Let_def split: sum.splits prod.splits)

lemma map_of_patched:
  "map_of (set_fields (update_doc message expiration_date start_date) d) k =
     (if k = ''message'' \<and> message \<noteq> None then Some (opt_val message)
      else if k = ''expiration_date'' \<and> expiration_date \<noteq> None then Some (opt_val expiration_date)
      else if k = ''start_date'' \<and> start_date \<noteq> None then Some (opt_val start_date)
      else map_of d k)"
  by (cases message; cases expiration_date; cases start_date)
    (simp_all add: set_fields_def update_doc_def update_conv' opt_val_def)

lemma has_expiration_patched:
  "has_expiration d \<Longrightarrow> has_expiration (set_fields (update_doc message expiration_date start_date) d)"
  by (cases expiration_date) (auto simp: has_expiration_def map_of_patched opt_val_def)

lemma update_announcement_store:
  "announcements_collection
     (snd (update_announcement announcement_id message expiration_date start_date username s))
     = announcements_collection s
   \<or> announcements_collection
       (snd (update_announcement announcement_id message expiration_date start_date username s))
     = fst (update_one (AllOf [Field ''_id'' (EqTo (PStr announcement_id))])
              (update_doc message expiration_date start_date) (announcements_collection s))"
  by (simp add: update_announcement_alt split: sum.splits prod.splits option.splits)

text \<open>An update that reaches the first record stored under the identifier.\<close>

lemma update_first_match:
  assumes "require_auth username s = Inr user"
    and "message \<noteq> None \<or> expiration_date \<noteq> None \<or> start_date \<noteq> None"
    and "announcements_collection s = pre @ d # post"
    and "\<not> list_ex (\<lambda>x. map_of x ''_id'' = Some (PStr announcement_id)) pre"
    and "map_of d ''_id'' = Some (PStr announcement_id)"
  shows "update_announcement announcement_id message expiration_date start_date username s
           = (Inr (expose_id (set_fields (update_doc message expiration_date start_date) d)),
              s\<lparr>announcements_collection :=
                   pre @ set_fields (update_doc message expiration_date start_date) d # post\<rparr>)"
proof -
  let ?q = "AllOf [Field ''_id'' (EqTo (PStr announcement_id))]"
  let ?upd = "update_doc message expiration_date start_date"
  let ?d' = "set_fields ?upd d"
  have id': "map_of ?d' ''_id'' = Some (PStr announcement_id)"
    by (simp add: map_of_patched assms(5))
  have upd: "update_one ?q ?upd (announcements_collection s) = (pre @ ?d' # post, 1)"
    using assms(4,5) by (simp add: assms(3) update_one_first matches_id_fun)
  have readback: "find_one ?q (pre @ ?d' # post) = Some ?d'"
    using assms(4) id' by (simp add: find_one_def matches_id_fun find_first)
  show ?thesis
    using assms(2) by (simp add: update_announcement_alt assms(1) upd readback)
qed

lemma create_rejects_empty:
  assumes "require_auth username s = Inr user"
    and "expiration_date = None \<or> expiration_date = Some ''''"
  shows "create_announcement new_id message expiration_date start_date username s
           = (Inl (HTTPException 400 ''Expiration date required''), s)"
  using assms by (auto simp: create_announcement_def)

lemma create_success_shape:
  assumes "create_announcement new_id message expiration_date start_date username s = (Inr r, s')"
  shows "\<exists>stored. s' = s\<lparr>announcements_collection := announcements_collection s @ [stored]\<rparr>
           \<and> map_of stored ''_id'' = Some new_id
           \<and> r = AList.update ''id'' (PStr (py_str new_id)) stored
           \<and> map_of stored ''message'' \<noteq> None \<and> map_of stored ''start_date'' \<noteq> None
           \<and> map_of stored ''expiration_date'' \<noteq> None \<and> map_of stored ''created_by'' \<noteq> None"
  using assms
  by (auto simp: create_announcement_def insert_one_def Let_def dict_get_def
      split: sum.splits if_splits option.splits)

text \<open>
  The dictionary \<open>create_announcement\<close> returns is the one it handed to \<open>insert_one\<close>, so it
  still holds the key \<^verbatim>\<open>_id\<close> the store wrote into it; the listing and the update remove
  that key with \<^verbatim>\<open>ann.pop("_id", None)\<close>, the creation does not.
\<close>

lemma create_response_keeps_store_key:
  assumes "require_auth username s = Inr user"
    and "map_of user ''username'' = Some created_by"
    and "expiration_date = Some e" and "e \<noteq> ''''"
    and "\<not> list_ex (\<lambda>d. map_of d ''_id'' = Some new_id) (announcements_collection s)"
  shows "\<exists>r s'. create_announcement new_id message expiration_date start_date username s = (Inr r, s')
           \<and> map_of r ''_id'' = Some new_id"
proof -
  let ?ann = "[(''message'', PStr message), (''start_date'', opt_val start_date),
               (''expiration_date'', PStr e), (''created_by'', created_by)]"
  have "insert_one new_id ?ann (announcements_collection s)
          = Inr (announcements_collection s @ [?ann @ [(''_id'', new_id)]],
                 ?ann @ [(''_id'', new_id)], new_id)"
    using assms(5) by (intro insert_one_fresh) simp_all
  then show ?thesis
    using assms(1-4) by (simp add: create_announcement_def opt_val_def)
qed

text \<open>Every handler keeps the identifiers of the announcements unique.\<close>

lemma handlers_keep_ids_unique:
  assumes "unique_ids (announcements_collection s)"
  shows "unique_ids (announcements_collection
           (snd (create_announcement new_id msg expiration_date start_date username s)))"
    and "unique_ids (announcements_collection
           (snd (update_announcement announcement_id message expiration_date start_date username s)))"
    and "unique_ids (announcements_collection (snd (delete_announcement announcement_id username s)))"
proof -
  show "unique_ids (announcements_collection
           (snd (create_announcement new_id msg expiration_date start_date username s)))"
    using assms
    by (auto simp: create_announcement_def insert_one_def Let_def dict_get_def unique_ids_def
        list_ex_iff split: sum.splits option.splits)
  have "map (\<lambda>d. map_of d ''_id'')
          (fst (update_one (AllOf [Field ''_id'' (EqTo (PStr announcement_id))])
                  (update_doc message expiration_date start_date) (announcements_collection s)))
        = map (\<lambda>d. map_of d ''_id'') (announcements_collection s)"
    by (intro update_one_map) (simp add: map_of_patched)
  then show "unique_ids (announcements_collection
           (snd (update_announcement announcement_id message expiration_date start_date username s)))"
    using assms
      update_announcement_store [of announcement_id message expiration_date start_date username s]
    by (auto simp: unique_ids_def)
  show "unique_ids (announcements_collection (snd (delete_announcement announcement_id username s)))"
    using assms delete_one_subseq [of "\<lambda>d. map_of d ''_id''" "announcements_collection s"
        "AllOf [Field ''_id'' (EqTo (PStr announcement_id))]"]
    by (auto simp: delete_announcement_def unique_ids_def Let_def split: sum.splits prod.splits)
qed

subsection \<open>Records stored by creation\<close>

text \<open>
  The store generates an \<^verbatim>\<open>ObjectId\<close> for a document inserted without \<^verbatim>\<open>_id\<close>, and
  \<open>create_announcement\<close> inserts such a document. It returns the text of that identifier,
  and the listing shows the record under that text; but no record is stored under the text
  as a string, which is what the filter \<^verbatim>\<open>{"_id": announcement_id}\<close> of the update and
  the deletion compares with.
\<close>

lemma created_record_unreachable:
  assumes "create_announcement (PObjectId h) message expiration_date start_date username s = (Inr r, s')"
  shows "map_of r ''id'' = Some (PStr h)"
    and "has_announcement a s' = has_announcement a s"
    and "has_principal username s'"
proof -
  from create_success_shape [OF assms] obtain stored where
    st: "s' = s\<lparr>announcements_collection := announcements_collection s @ [stored]\<rparr>"
      "map_of stored ''_id'' = Some (PObjectId h)"
      "r = AList.update ''id'' (PStr (py_str (PObjectId h))) stored"
    by blast
  show "map_of r ''id'' = Some (PStr h)"
    by (simp add: st(3) update_conv')
  show "has_announcement a s' = has_announcement a s"
    by (simp add: has_announcement_def st(1,2))
  have "\<not> unauthorized
            (fst (create_announcement (PObjectId h) message expiration_date start_date username s))"
    by (simp add: assms)
  then have "has_principal username s"
    by (cases "has_principal username s")
      (simp_all add: create_announcement_def require_auth_denied)
  then show "has_principal username s'"
    by (simp add: has_principal_def st(1))
qed

text \<open>
  So, unless a record was already stored under the same text as a string key, the update and
  the deletion of the identifier a creation returned fail with the not-found response.
\<close>

lemma created_record_not_found:
  assumes "create_announcement (PObjectId h) msg expiration_date start_date username s = (Inr r, s')"
    and "\<not> has_announcement h s"
    and "message \<noteq> None \<or> new_expiration_date \<noteq> None \<or> new_start_date \<noteq> None"
  shows "update_announcement h message new_expiration_date new_start_date username s'
           = (Inl (HTTPException 404 ''Announcement not found''), s')"
    and "delete_announcement h username s'
           = (Inl (HTTPException 404 ''Announcement not found''), s')"
proof -
  let ?q = "AllOf [Field ''_id'' (EqTo (PStr h))]"
  from created_record_unreachable [OF assms(1)] assms(2)
  have n: "\<not> has_announcement h s'" and p: "has_principal username s'"
    by simp_all
  obtain user where u: "require_auth username s' = Inr user"
    using require_auth_granted [OF p] by blast
  from n have nm: "\<not> list_ex (matches ?q) (announcements_collection s')"
    by (simp add: has_announcement_def matches_id_fun)
  show "update_announcement h message new_expiration_date new_start_date username s'
           = (Inl (HTTPException 404 ''Announcement not found''), s')"
    using assms(3) by (auto simp: update_announcement_alt u update_one_none [OF nm])
  show "delete_announcement h username s'
           = (Inl (HTTPException 404 ''Announcement not found''), s')"
    by (simp add: delete_announcement_def u delete_one_none [OF nm])
qed

section \<open>The claims\<close>

subsection \<open>Listing\<close>

text \<open>
  C1: for every store and every \<open>now\<close>, the listing with \<^verbatim>\<open>active_only\<close> set returns
  exactly the records whose \<^verbatim>\<open>start_date\<close> is absent, null or a string \<open>\<le> now\<close> and whose
  \<^verbatim>\<open>expiration_date\<close> is a string \<open>\<ge> now\<close> (lexical comparison), in store order; without
  \<^verbatim>\<open>active_only\<close> it returns every record. Each returned record carries the text of its
  store identifier under \<^verbatim>\<open>id\<close>, has no key \<^verbatim>\<open>_id\<close>, and agrees with the stored record on
  every other field. The store is left as it was.
\<close>

theorem list_active_and_all:
  "get_announcements True now s
     = (Inr (map expose_id (filter (spec_active now) (announcements_collection s))), s)
   \<and> get_announcements False now s = (Inr (map expose_id (announcements_collection s)), s)
   \<and> (\<forall>d. map_of (expose_id d) ''id'' = Some (PStr (py_str (dict_get d ''_id'' (PStr ''''))))
          \<and> map_of (expose_id d) ''_id'' = None
          \<and> (\<forall>k. k \<noteq> ''id'' \<and> k \<noteq> ''_id'' \<longrightarrow> map_of (expose_id d) k = map_of d k))"
proof -
  have "matches (AllOf [AnyOf [AllOf [Field ''start_date'' (EqTo PNone)],
                               AllOf [Field ''start_date'' (LteTo (PStr now))]],
                        Field ''expiration_date'' (GteTo (PStr now))]) = spec_active now"
    by (rule ext) (rule active_query_matches)
  then have "get_announcements True now s
     = (Inr (map expose_id (filter (spec_active now) (announcements_collection s))), s)"
    by (simp add: get_announcements_def find_coll_def)
  moreover have "get_announcements False now s
     = (Inr (map expose_id (announcements_collection s)), s)"
    by (simp add: get_announcements_def find_coll_def)
  ultimately show ?thesis
    by (simp add: map_of_expose_id)
qed

theorem list_active_and_all_witness:
  "get_announcements True ''2025-01-05T12:00:00'' demo_db
     = (Inr [[(''message'', PStr ''Picture day''), (''start_date'', PNone),
              (''expiration_date'', PStr ''2025-01-10T00:00:00''), (''created_by'', PStr ''jdoe''),
              (''id'', PStr ''a1'')]], demo_db)
   \<and> map (\<lambda>r. map_of r ''id'') (projr (fst (get_announcements False ''2025-01-05T12:00:00'' demo_db)))
       = [Some (PStr ''a1''), Some (PStr ''a2'')]
   \<and> ''message'' \<noteq> ''id'' \<and> ''message'' \<noteq> ''_id''
   \<and> map_of (expose_id (hd (announcements_collection demo_db))) ''message'' = Some (PStr ''Picture day'')"
  using list_active_and_all [of "''2025-01-05T12:00:00''" demo_db]
  by (simp add: demo_db_def spec_active_def expose_id_def dict_get_def)

text \<open>
  C10: the listing needs no principal: its outcome does not depend on the principal store, it
  always returns a list, and it is never the unauthorized response.
\<close>

theorem list_needs_no_principal:
  "get_announcements active_only now (s\<lparr>teachers_collection := ts\<rparr>)
     = (fst (get_announcements active_only now s), s\<lparr>teachers_collection := ts\<rparr>)
   \<and> (\<exists>anns. fst (get_announcements active_only now s) = Inr anns)
   \<and> \<not> unauthorized (fst (get_announcements active_only now s))"
proof -
  let ?anns = "\<lambda>q. map expose_id (find_coll q (announcements_collection s))"
  obtain q where q: "\<And>t. get_announcements active_only now t
                        = (Inr (map expose_id (find_coll q (announcements_collection t))), t)"
    by (simp add: get_announcements_def Let_def)
  have "get_announcements active_only now (s\<lparr>teachers_collection := ts\<rparr>)
          = (Inr (?anns q), s\<lparr>teachers_collection := ts\<rparr>)"
    by (simp add: q)
  moreover have "fst (get_announcements active_only now s) = Inr (?anns q)"
    by (simp add: q)
  ultimately show ?thesis
    by simp
qed

theorem list_needs_no_principal_witness:
  "get_announcements True ''2025-01-05T12:00:00'' (demo_db\<lparr>teachers_collection := []\<rparr>)
     = (fst (get_announcements True ''2025-01-05T12:00:00'' demo_db),
        demo_db\<lparr>teachers_collection := []\<rparr>)
   \<and> \<not> unauthorized
         (fst (get_announcements True ''2025-01-05T12:00:00'' (demo_db\<lparr>teachers_collection := []\<rparr>)))"
  using list_needs_no_principal [where active_only = True and now = "''2025-01-05T12:00:00''"
      and s = demo_db and ts = "[]"]
    list_needs_no_principal [where active_only = True and now = "''2025-01-05T12:00:00''"
      and s = "demo_db\<lparr>teachers_collection := []\<rparr>" and ts = "[]"]
  by simp

subsection \<open>Authentication\<close>

text \<open>
  C3: creation, update and deletion end in the unauthorized response (401) exactly when no
  principal record is stored under the caller's identity string; in that case each of them
  returns "Authentication required" whatever its other arguments are, and leaves the store as
  it was.
\<close>

theorem unauthorized_iff_no_principal:
  "(unauthorized (fst (create_announcement new_id message expiration_date start_date username s))
      \<longleftrightarrow> \<not> has_principal username s)
   \<and> (unauthorized
         (fst (update_announcement announcement_id new_message expiration_date start_date username s))
      \<longleftrightarrow> \<not> has_principal username s)
   \<and> (unauthorized (fst (delete_announcement announcement_id username s))
      \<longleftrightarrow> \<not> has_principal username s)
   \<and> (\<not> has_principal username s \<longrightarrow>
        create_announcement new_id message expiration_date start_date username s
          = (Inl (HTTPException 401 ''Authentication required''), s)
      \<and> update_announcement announcement_id new_message expiration_date start_date username s
          = (Inl (HTTPException 401 ''Authentication required''), s)
      \<and> delete_announcement announcement_id username s
          = (Inl (HTTPException 401 ''Authentication required''), s))"
proof (cases "has_principal username s")
  case False
  then show ?thesis
    by (simp add: require_auth_denied create_announcement_def update_announcement_def
        delete_announcement_def)
next
  case True
  then obtain user where u: "require_auth username s = Inr user"
    using require_auth_granted by blast
  have c: "\<not> unauthorized
              (fst (create_announcement new_id message expiration_date start_date username s))"
    by (simp add: u create_announcement_def insert_one_def Let_def split: option.splits)
  have up: "\<not> unauthorized
              (fst (update_announcement announcement_id new_message expiration_date start_date username s))"
    by (simp add: u update_announcement_def Let_def split: option.splits prod.splits)
  have d: "\<not> unauthorized (fst (delete_announcement announcement_id username s))"
    by (simp add: u delete_announcement_def Let_def split: prod.splits)
  from True c up d show ?thesis by simp
qed

theorem unauthorized_iff_no_principal_witness:
  "\<not> has_principal ''mallory'' demo_db
   \<and> create_announcement (PObjectId ''65a1'') ''Hello'' None None ''mallory'' demo_db
       = (Inl (HTTPException 401 ''Authentication required''), demo_db)
   \<and> update_announcement ''a1'' None None None ''mallory'' demo_db
       = (Inl (HTTPException 401 ''Authentication required''), demo_db)
   \<and> delete_announcement ''a1'' ''mallory'' demo_db
       = (Inl (HTTPException 401 ''Authentication required''), demo_db)
   \<and> has_principal ''jdoe'' demo_db
   \<and> \<not> unauthorized (fst (delete_announcement ''a1'' ''jdoe'' demo_db))"
proof -
  have h: "\<not> has_principal ''mallory'' demo_db" by (simp add: eval_db)
  have j: "has_principal ''jdoe'' demo_db" by (simp add: eval_db)
  show ?thesis
    using h j
      unauthorized_iff_no_principal [where new_id = "PObjectId ''65a1''" and message = "''Hello''"
        and expiration_date = None and start_date = None and username = "''mallory''"
        and s = demo_db and announcement_id = "''a1''" and new_message = None]
      unauthorized_iff_no_principal [where new_id = "PObjectId ''65a1''" and message = "''Hello''"
        and expiration_date = None and start_date = None and username = "''jdoe''"
        and s = demo_db and announcement_id = "''a1''" and new_message = None]
    by simp
qed

subsection \<open>Creation\<close>

text \<open>
  C2, as amended: when the caller's principal record carries a \<^verbatim>\<open>username\<close> field, the
  expiration date is non-empty and the identifier the store generates is not in use, creation
  succeeds; it appends one record holding message, start date (null when absent), expiration
  date, \<^verbatim>\<open>created_by\<close> and the new identifier, the only record stored under that
  identifier; and the returned record holds the text of the new identifier under \<^verbatim>\<open>id\<close>
  and the same message, start date, expiration date and \<^verbatim>\<open>created_by\<close>. The value of
  \<^verbatim>\<open>created_by\<close> is the \<^verbatim>\<open>username\<close> field of the principal record, which is the
  caller's identity string when the record is keyed by its own username.
\<close>

theorem create_persists_and_returns:
  assumes "require_auth username s = Inr user"
    and "map_of user ''username'' = Some created_by"
    and "expiration_date = Some e" and "e \<noteq> ''''"
    and "\<not> list_ex (\<lambda>d. map_of d ''_id'' = Some new_id) (announcements_collection s)"
  shows "\<exists>r stored.
           create_announcement new_id message expiration_date start_date username s
             = (Inr r, s\<lparr>announcements_collection := announcements_collection s @ [stored]\<rparr>)
         \<and> stored = [(''message'', PStr message), (''start_date'', opt_val start_date),
                      (''expiration_date'', PStr e), (''created_by'', created_by), (''_id'', new_id)]
         \<and> filter (\<lambda>d. map_of d ''_id'' = Some new_id) (announcements_collection s @ [stored])
             = [stored]
         \<and> map_of r ''id'' = Some (PStr (py_str new_id))
         \<and> map_of r ''message'' = Some (PStr message)
         \<and> map_of r ''start_date'' = Some (opt_val start_date)
         \<and> map_of r ''expiration_date'' = Some (PStr e)
         \<and> map_of r ''created_by'' = Some created_by"
proof -
  let ?ann = "[(''message'', PStr message), (''start_date'', opt_val start_date),
               (''expiration_date'', PStr e), (''created_by'', created_by)]"
  have ins: "insert_one new_id ?ann (announcements_collection s)
               = Inr (announcements_collection s @ [?ann @ [(''_id'', new_id)]],
                      ?ann @ [(''_id'', new_id)], new_id)"
    using assms(5) by (intro insert_one_fresh) simp_all
  have "filter (\<lambda>d. map_of d ''_id'' = Some new_id) (announcements_collection s) = []"
    using assms(5) by (simp add: list_ex_iff filter_empty_conv)
  then show ?thesis
    using assms(1-4) ins by (simp add: create_announcement_def opt_val_def)
qed

theorem create_persists_and_returns_witness:
  "require_auth ''jdoe'' demo_db
     = Inr [(''_id'', PStr ''jdoe''), (''username'', PStr ''jdoe''), (''display_name'', PStr ''J. Doe'')]
   \<and> map_of [(''_id'', PStr ''jdoe''), (''username'', PStr ''jdoe''), (''display_name'', PStr ''J. Doe'')]
        ''username'' = Some (PStr ''jdoe'')
   \<and> ''2025-01-10T00:00:00'' \<noteq> ''''
   \<and> \<not> list_ex (\<lambda>d. map_of d ''_id'' = Some (PObjectId ''65a1'')) (announcements_collection demo_db)
   \<and> (\<exists>r s'. create_announcement (PObjectId ''65a1'') ''Picture day'' (Some ''2025-01-10T00:00:00'') None
                ''jdoe'' demo_db = (Inr r, s')
             \<and> length (announcements_collection s') = 3
             \<and> map_of r ''id'' = Some (PStr ''65a1'')
             \<and> map_of r ''message'' = Some (PStr ''Picture day'')
             \<and> map_of r ''start_date'' = Some PNone
             \<and> map_of r ''expiration_date'' = Some (PStr ''2025-01-10T00:00:00'')
             \<and> map_of r ''created_by'' = Some (PStr ''jdoe''))"
proof -
  let ?user = "[(''_id'', PStr ''jdoe''), (''username'', PStr ''jdoe''), (''display_name'', PStr ''J. Doe'')]"
  have h1: "require_auth ''jdoe'' demo_db = Inr ?user"
    by (simp add: require_auth_def find_one_def demo_db_def)
  have h2: "map_of ?user ''username'' = Some (PStr ''jdoe'')" by simp
  have h3: "''2025-01-10T00:00:00'' \<noteq> ''''" by simp
  have h4: "\<not> list_ex (\<lambda>d. map_of d ''_id'' = Some (PObjectId ''65a1''))
               (announcements_collection demo_db)"
    by (simp add: demo_db_def)
  have n: "length (announcements_collection demo_db) = 2" by (simp add: demo_db_def)
  from create_persists_and_returns [OF h1 h2 refl h3 h4, of "''Picture day''" None]
  have "\<exists>r s'. create_announcement (PObjectId ''65a1'') ''Picture day'' (Some ''2025-01-10T00:00:00'') None
                ''jdoe'' demo_db = (Inr r, s')
             \<and> length (announcements_collection s') = 3
             \<and> map_of r ''id'' = Some (PStr ''65a1'')
             \<and> map_of r ''message'' = Some (PStr ''Picture day'')
             \<and> map_of r ''start_date'' = Some PNone
             \<and> map_of r ''expiration_date'' = Some (PStr ''2025-01-10T00:00:00'')
             \<and> map_of r ''created_by'' = Some (PStr ''jdoe'')"
    by (auto simp: n opt_val_def)
  with h1 h2 h3 h4 show ?thesis by blast
qed

text \<open>
  The claim as stated fails where the principal record stored under the caller's identity
  \<^verbatim>\<open>jdoe\<close> carries another \<^verbatim>\<open>username\<close>: the caller is authenticated, and the created
  record is attributed to that other name.
\<close>

theorem create_created_by_counterexample:
  "has_principal ''jdoe'' alias_db
   \<and> (\<exists>r s'. create_announcement (PObjectId ''65a1'') ''Picture day'' (Some ''2025-01-10T00:00:00'') None
                ''jdoe'' alias_db = (Inr r, s')
             \<and> map_of r ''created_by'' = Some (PStr ''John Doe'')
             \<and> map_of r ''created_by'' \<noteq> Some (PStr ''jdoe''))"
  by (simp add: eval_db create_announcement_def require_auth_def find_one_def insert_one_def
      dict_get_def opt_val_def Let_def)

text \<open>
  C6: for an authenticated caller, a creation whose expiration date is absent or empty fails
  with the bad-request response "Expiration date required" and leaves the store as it was.
\<close>

theorem create_requires_expiration_date:
  assumes "has_principal username s"
    and "expiration_date = None \<or> expiration_date = Some ''''"
  shows "create_announcement new_id message expiration_date start_date username s
           = (Inl (HTTPException 400 ''Expiration date required''), s)"
proof -
  obtain user where "require_auth username s = Inr user"
    using require_auth_granted [OF assms(1)] by blast
  then show ?thesis
    using assms(2) by (rule create_rejects_empty)
qed

theorem create_requires_expiration_date_witness:
  "has_principal ''jdoe'' demo_db
   \<and> create_announcement (PObjectId ''65a1'') ''Picture day'' (Some '''') None ''jdoe'' demo_db
       = (Inl (HTTPException 400 ''Expiration date required''), demo_db)
   \<and> create_announcement (PObjectId ''65a1'') ''Picture day'' None None ''jdoe'' demo_db
       = (Inl (HTTPException 400 ''Expiration date required''), demo_db)"
proof -
  have h: "has_principal ''jdoe'' demo_db" by (simp add: eval_db)
  show ?thesis
    using h create_requires_expiration_date [OF h, of "Some ''''"]
      create_requires_expiration_date [OF h, of None]
    by simp
qed

text \<open>
  C8: after a successful creation the full listing contains a record whose \<^verbatim>\<open>id\<close>,
  message, start date, expiration date and \<^verbatim>\<open>created_by\<close> are those of the record the
  creation returned, each of them present.
\<close>

theorem create_then_list_roundtrip:
  assumes "create_announcement new_id message expiration_date start_date username s = (Inr r, s')"
  shows "\<exists>anns. fst (get_announcements False now s') = Inr anns
           \<and> (\<exists>x \<in> set anns.
                 \<forall>k \<in> {''id'', ''message'', ''start_date'', ''expiration_date'', ''created_by''}.
                   map_of x k = map_of r k \<and> map_of r k \<noteq> None)"
proof -
  from create_success_shape [OF assms] obtain stored where
    st: "s' = s\<lparr>announcements_collection := announcements_collection s @ [stored]\<rparr>"
      "map_of stored ''_id'' = Some new_id"
      "r = AList.update ''id'' (PStr (py_str new_id)) stored"
      "map_of stored ''message'' \<noteq> None" "map_of stored ''start_date'' \<noteq> None"
      "map_of stored ''expiration_date'' \<noteq> None" "map_of stored ''created_by'' \<noteq> None"
    by blast
  have l: "fst (get_announcements False now s')
             = Inr (map expose_id (announcements_collection s) @ [expose_id stored])"
    by (simp add: get_announcements_def find_coll_def st(1))
  have "\<forall>k \<in> {''id'', ''message'', ''start_date'', ''expiration_date'', ''created_by''}.
          map_of (expose_id stored) k = map_of r k \<and> map_of r k \<noteq> None"
    using st(2-) by (simp add: map_of_expose_id update_conv' dict_get_def)
  with l show ?thesis by auto
qed

theorem create_then_list_roundtrip_witness:
  "(\<exists>r s'. create_announcement (PObjectId ''65a1'') ''Picture day'' (Some ''2025-01-10T00:00:00'') None
              ''jdoe'' demo_db = (Inr r, s')
         \<and> map_of r ''id'' = Some (PStr ''65a1'')
         \<and> (\<exists>anns. fst (get_announcements False ''2025-01-05T12:00:00'' s') = Inr anns
                \<and> (\<exists>x \<in> set anns.
                      \<forall>k \<in> {''id'', ''message'', ''start_date'', ''expiration_date'', ''created_by''}.
                        map_of x k = map_of r k \<and> map_of r k \<noteq> None)))"
proof -
  obtain r s' where c: "create_announcement (PObjectId ''65a1'') ''Picture day''
      (Some ''2025-01-10T00:00:00'') None ''jdoe'' demo_db = (Inr r, s')"
    and i: "map_of r ''id'' = Some (PStr ''65a1'')"
    by (simp add: eval_db create_announcement_def require_auth_def find_one_def insert_one_def
        dict_get_def opt_val_def Let_def)
  from create_then_list_roundtrip [OF c, of "''2025-01-05T12:00:00''"] c i
  show ?thesis by blast
qed

subsection \<open>Update\<close>

text \<open>
  What an update does to a record whose store key is the string it is asked for (a record put
  into the store under a string key, not one stored by \<open>create_announcement\<close> under a
  generated identifier): for an authenticated caller and at least one supplied field it
  replaces the first such record \<open>d\<close> by a record \<open>d'\<close> that holds the supplied values
  and agrees with \<open>d\<close> on every other field, leaves all other records as they were, and
  returns \<open>d'\<close> with the key under \<^verbatim>\<open>id\<close>.
\<close>

lemma update_of_string_keyed_record:
  assumes "has_principal username s"
    and "message \<noteq> None \<or> expiration_date \<noteq> None \<or> start_date \<noteq> None"
    and "announcements_collection s = pre @ d # post"
    and "\<not> list_ex (\<lambda>x. map_of x ''_id'' = Some (PStr announcement_id)) pre"
    and "map_of d ''_id'' = Some (PStr announcement_id)"
  shows "\<exists>d'. update_announcement announcement_id message expiration_date start_date username s
                 = (Inr (expose_id d'), s\<lparr>announcements_collection := pre @ d' # post\<rparr>)
             \<and> (\<forall>k. map_of d' k =
                   (if k = ''message'' \<and> message \<noteq> None then Some (opt_val message)
                    else if k = ''expiration_date'' \<and> expiration_date \<noteq> None
                      then Some (opt_val expiration_date)
                    else if k = ''start_date'' \<and> start_date \<noteq> None then Some (opt_val start_date)
                    else map_of d k))
             \<and> (\<forall>k. map_of (expose_id d') k =
                   (if k = ''_id'' then None
                    else if k = ''id'' then Some (PStr announcement_id)
                    else map_of d' k))"
proof -
  let ?d' = "set_fields (update_doc message expiration_date start_date) d"
  obtain user where u: "require_auth username s = Inr user"
    using require_auth_granted [OF assms(1)] by blast
  have id': "map_of ?d' ''_id'' = Some (PStr announcement_id)"
    by (simp add: map_of_patched assms(5))
  have "update_announcement announcement_id message expiration_date start_date username s
          = (Inr (expose_id ?d'), s\<lparr>announcements_collection := pre @ ?d' # post\<rparr>)"
    using u assms(2-5) by (rule update_first_match)
  moreover have "\<forall>k. map_of (expose_id ?d') k =
                   (if k = ''_id'' then None
                    else if k = ''id'' then Some (PStr announcement_id)
                    else map_of ?d' k)"
    by (simp add: map_of_expose_id dict_get_def id')
  ultimately show ?thesis
    using map_of_patched by blast
qed

text \<open>
  C4 says that an update of an existing record changes the supplied fields only and returns the
  post-update record. The code does not do so for a record that \<open>create_announcement\<close> stored:
  the creation by \<^verbatim>\<open>jdoe\<close> on the sample store returns the identifier \<^verbatim>\<open>65a1\<close>, the
  listing shows the record under it, and the update of \<^verbatim>\<open>65a1\<close> with a new message fails
  with the not-found response and leaves the store as it was.
\<close>

theorem update_created_record_not_found:
  "\<exists>r s1 anns.
     create_announcement (PObjectId ''65a1'') ''Picture day'' (Some ''2025-01-10T00:00:00'') None
       ''jdoe'' demo_db = (Inr r, s1)
     \<and> map_of r ''id'' = Some (PStr ''65a1'')
     \<and> fst (get_announcements False ''2025-01-05T12:00:00'' s1) = Inr anns
     \<and> map (\<lambda>x. map_of x ''id'') anns = [Some (PStr ''a1''), Some (PStr ''a2''), Some (PStr ''65a1'')]
     \<and> update_announcement ''65a1'' (Some ''Moved to the gym'') None None ''jdoe'' s1
         = (Inl (HTTPException 404 ''Announcement not found''), s1)"
  by (simp add: eval_db create_announcement_def update_announcement_def get_announcements_def
      find_coll_def require_auth_def find_one_def insert_one_def expose_id_def dict_get_def
      opt_val_def Let_def)

text \<open>
  C5: for an authenticated caller, an update that supplies no field fails with the bad-request
  response "No update fields provided", and an update that supplies a field for an identifier
  under which nothing is stored fails with the not-found response; both leave the store as it
  was.
\<close>

theorem update_rejections:
  assumes "has_principal username s"
  shows "update_announcement announcement_id None None None username s
           = (Inl (HTTPException 400 ''No update fields provided''), s)
       \<and> ((message \<noteq> None \<or> expiration_date \<noteq> None \<or> start_date \<noteq> None)
            \<and> \<not> has_announcement announcement_id s \<longrightarrow>
          update_announcement announcement_id message expiration_date start_date username s
            = (Inl (HTTPException 404 ''Announcement not found''), s))"
proof -
  obtain user where u: "require_auth username s = Inr user"
    using require_auth_granted [OF assms] by blast
  show ?thesis
    by (auto simp: update_announcement_alt u has_announcement_def matches_id_fun update_one_none)
qed

theorem update_rejections_witness:
  "has_principal ''jdoe'' demo_db
   \<and> update_announcement ''a1'' None None None ''jdoe'' demo_db
       = (Inl (HTTPException 400 ''No update fields provided''), demo_db)
   \<and> Some ''Moved'' \<noteq> None \<and> \<not> has_announcement ''zz'' demo_db
   \<and> update_announcement ''zz'' (Some ''Moved'') None None ''jdoe'' demo_db
       = (Inl (HTTPException 404 ''Announcement not found''), demo_db)"
proof -
  have h: "has_principal ''jdoe'' demo_db" by (simp add: eval_db)
  have n: "\<not> has_announcement ''zz'' demo_db" by (simp add: eval_db)
  show ?thesis
    using h n
      update_rejections [OF h, where announcement_id = "''a1''" and message = None
        and expiration_date = None and start_date = None]
      update_rejections [OF h, where announcement_id = "''zz''" and message = "Some ''Moved''"
        and expiration_date = None and start_date = None]
    by simp
qed

text \<open>
  C9, as amended: the expiration date is checked on creation only. An update that omits it
  leaves the expiration date of every stored record as it was; no update takes an expiration
  date away from a record that holds one; but an update may store the empty string, which
  creation refuses.
\<close>

theorem update_never_clears_expiration_date:
  "map (\<lambda>d. map_of d ''expiration_date'')
       (announcements_collection
          (snd (update_announcement announcement_id message None start_date username s)))
     = map (\<lambda>d. map_of d ''expiration_date'') (announcements_collection s)
   \<and> (list_all has_expiration (announcements_collection s) \<longrightarrow>
        list_all has_expiration
          (announcements_collection
             (snd (update_announcement announcement_id message expiration_date start_date username s))))
   \<and> (has_principal username s \<and> has_announcement announcement_id s \<longrightarrow>
        (\<exists>r s'. update_announcement announcement_id message (Some '''') start_date username s = (Inr r, s')
               \<and> map_of r ''expiration_date'' = Some (PStr ''''))
        \<and> create_announcement new_id msg (Some '''') start_date username s
            = (Inl (HTTPException 400 ''Expiration date required''), s))"
proof (intro conjI impI)
  show "map (\<lambda>d. map_of d ''expiration_date'')
       (announcements_collection
          (snd (update_announcement announcement_id message None start_date username s)))
     = map (\<lambda>d. map_of d ''expiration_date'') (announcements_collection s)"
    using update_announcement_store [of announcement_id message None start_date username s]
    by (auto simp: update_one_map map_of_patched)
next
  assume "list_all has_expiration (announcements_collection s)"
  then show "list_all has_expiration
          (announcements_collection
             (snd (update_announcement announcement_id message expiration_date start_date username s)))"
    using update_announcement_store [of announcement_id message expiration_date start_date username s]
    by (auto simp: update_one_list_all has_expiration_patched)
next
  assume h: "has_principal username s \<and> has_announcement announcement_id s"
  then obtain pre d post where split: "announcements_collection s = pre @ d # post"
      "\<not> list_ex (\<lambda>x. map_of x ''_id'' = Some (PStr announcement_id)) pre"
      "map_of d ''_id'' = Some (PStr announcement_id)"
    unfolding has_announcement_def using first_match_split by blast
  from h obtain user where u: "require_auth username s = Inr user"
    using require_auth_granted by blast
  have "update_announcement announcement_id message (Some '''') start_date username s
          = (Inr (expose_id (set_fields (update_doc message (Some '''') start_date) d)),
             s\<lparr>announcements_collection :=
                  pre @ set_fields (update_doc message (Some '''') start_date) d # post\<rparr>)"
    by (rule update_first_match [OF u _ split]) simp
  moreover have "map_of (expose_id (set_fields (update_doc message (Some '''') start_date) d))
                   ''expiration_date'' = Some (PStr '''')"
    by (simp add: map_of_expose_id map_of_patched opt_val_def)
  ultimately show "\<exists>r s'. update_announcement announcement_id message (Some '''') start_date username s
                      = (Inr r, s')
               \<and> map_of r ''expiration_date'' = Some (PStr '''')"
    by blast
  show "create_announcement new_id msg (Some '''') start_date username s
            = (Inl (HTTPException 400 ''Expiration date required''), s)"
    using u by (rule create_rejects_empty) simp
qed

theorem update_never_clears_expiration_date_witness:
  "list_all has_expiration (announcements_collection demo_db)
   \<and> list_all has_expiration
       (announcements_collection
          (snd (update_announcement ''a1'' (Some ''Moved'') None None ''jdoe'' demo_db)))
   \<and> has_principal ''jdoe'' demo_db \<and> has_announcement ''a1'' demo_db
   \<and> (\<exists>r s'. update_announcement ''a1'' None (Some '''') None ''jdoe'' demo_db = (Inr r, s')
            \<and> map_of r ''expiration_date'' = Some (PStr ''''))
   \<and> create_announcement (PObjectId ''65a1'') ''Picture day'' (Some '''') None ''jdoe'' demo_db
       = (Inl (HTTPException 400 ''Expiration date required''), demo_db)"
proof -
  have h1: "list_all has_expiration (announcements_collection demo_db)"
    by (simp add: demo_db_def has_expiration_def)
  have h2: "has_principal ''jdoe'' demo_db \<and> has_announcement ''a1'' demo_db"
    by (simp add: eval_db)
  show ?thesis
    using h1 h2
      update_never_clears_expiration_date [where announcement_id = "''a1''"
        and message = "Some ''Moved''" and start_date = None and username = "''jdoe''"
        and s = demo_db and expiration_date = None and new_id = "PObjectId ''65a1''"
        and msg = "''Picture day''"]
      update_never_clears_expiration_date [where announcement_id = "''a1''"
        and message = None and start_date = None and username = "''jdoe''"
        and s = demo_db and expiration_date = None and new_id = "PObjectId ''65a1''"
        and msg = "''Picture day''"]
    by simp
qed

text \<open>
  The claim as stated says that omitting the expiration date on update can leave the stored
  record without one. It does not: an update of the first sample announcement that omits the
  expiration date succeeds, returns the record with its expiration date, and every stored
  record keeps the expiration date it had.
\<close>

theorem omitted_expiration_date_counterexample:
  "fst (update_announcement ''a1'' (Some ''Moved to the gym'') None None ''jdoe'' demo_db)
     = Inr [(''message'', PStr ''Moved to the gym''), (''start_date'', PNone),
            (''expiration_date'', PStr ''2025-01-10T00:00:00''), (''created_by'', PStr ''jdoe''),
            (''id'', PStr ''a1'')]
   \<and> map (\<lambda>d. map_of d ''expiration_date'')
       (announcements_collection
          (snd (update_announcement ''a1'' (Some ''Moved to the gym'') None None ''jdoe'' demo_db)))
     = [Some (PStr ''2025-01-10T00:00:00''), Some (PStr ''2025-03-31T00:00:00'')]"
  by (simp add: eval_db update_announcement_def require_auth_def find_one_def set_fields_def
      expose_id_def dict_get_def Let_def)

subsection \<open>Deletion\<close>

text \<open>
  What a deletion does in a store with unique keys when it is asked for a string: when a record
  is stored under that string as its key, deletion returns the confirmation message, removes
  exactly that record, and a second deletion fails with the not-found response; when no
  record has that string as its key, deletion fails with the not-found response and leaves the
  store as it was.
\<close>

lemma delete_of_string_keyed_record:
  assumes "has_principal username s" and "unique_ids (announcements_collection s)"
  shows "(has_announcement announcement_id s \<longrightarrow>
            (\<exists>s'. delete_announcement announcement_id username s
                     = (Inr [(''message'', PStr ''Announcement deleted'')], s')
                 \<and> announcements_collection s'
                     = filter (\<lambda>d. map_of d ''_id'' \<noteq> Some (PStr announcement_id))
                         (announcements_collection s)
                 \<and> length (announcements_collection s') + 1 = length (announcements_collection s)
                 \<and> teachers_collection s' = teachers_collection s
                 \<and> delete_announcement announcement_id username s'
                     = (Inl (HTTPException 404 ''Announcement not found''), s')))
       \<and> (\<not> has_announcement announcement_id s \<longrightarrow>
            delete_announcement announcement_id username s
              = (Inl (HTTPException 404 ''Announcement not found''), s))"
proof (intro conjI impI)
  let ?q = "AllOf [Field ''_id'' (EqTo (PStr announcement_id))]"
  let ?rest = "filter (\<lambda>d. map_of d ''_id'' \<noteq> Some (PStr announcement_id))
                 (announcements_collection s)"
  let ?s' = "s\<lparr>announcements_collection := ?rest\<rparr>"
  obtain user where u: "require_auth username s = Inr user"
    using require_auth_granted [OF assms(1)] by blast
  {
    assume "\<not> has_announcement announcement_id s"
    then have "delete_one ?q (announcements_collection s) = (announcements_collection s, 0)"
      by (simp add: has_announcement_def delete_one_none matches_id_fun)
    then show "delete_announcement announcement_id username s
              = (Inl (HTTPException 404 ''Announcement not found''), s)"
      by (simp add: delete_announcement_def u)
  }
  {
    assume h: "has_announcement announcement_id s"
    have d1: "delete_one ?q (announcements_collection s) = (?rest, 1)"
      using assms(2) h
      by (intro delete_one_unique) (simp_all add: has_announcement_def matches_id_fun)
    have first: "delete_announcement announcement_id username s
                     = (Inr [(''message'', PStr ''Announcement deleted'')], ?s')"
      by (simp add: delete_announcement_def u d1)
    have u': "require_auth username ?s' = Inr user"
      using u by (simp add: require_auth_def)
    have "\<not> list_ex (matches ?q) ?rest"
      by (simp add: matches_id_fun list_ex_iff)
    then have "delete_one ?q (announcements_collection ?s') = (announcements_collection ?s', 0)"
      by (simp add: delete_one_none)
    then have second: "delete_announcement announcement_id username ?s'
                     = (Inl (HTTPException 404 ''Announcement not found''), ?s')"
      by (simp add: delete_announcement_def u')
    have len: "length ?rest + 1 = length (announcements_collection s)"
      using assms(2) h by (intro filter_removes_one) (simp_all add: has_announcement_def)
    show "\<exists>s'. delete_announcement announcement_id username s
                     = (Inr [(''message'', PStr ''Announcement deleted'')], s')
                 \<and> announcements_collection s'
                     = filter (\<lambda>d. map_of d ''_id'' \<noteq> Some (PStr announcement_id))
                         (announcements_collection s)
                 \<and> length (announcements_collection s') + 1 = length (announcements_collection s)
                 \<and> teachers_collection s' = teachers_collection s
                 \<and> delete_announcement announcement_id username s'
                     = (Inl (HTTPException 404 ''Announcement not found''), s')"
      using first second len by (intro exI [of _ ?s']) simp
  }
qed

text \<open>
  C7 says that the deletion of a stored record succeeds the first time and fails with the
  not-found response the second time. The code does not do so for a record that
  \<open>create_announcement\<close> stored: the creation by \<^verbatim>\<open>jdoe\<close> on the sample store returns the
  identifier \<^verbatim>\<open>65a1\<close>, the listing shows the record under it, and the first deletion of
  \<^verbatim>\<open>65a1\<close> already fails with the not-found response and removes nothing.
\<close>

theorem delete_created_record_not_found:
  "\<exists>r s1 anns.
     create_announcement (PObjectId ''65a1'') ''Picture day'' (Some ''2025-01-10T00:00:00'') None
       ''jdoe'' demo_db = (Inr r, s1)
     \<and> map_of r ''id'' = Some (PStr ''65a1'')
     \<and> fst (get_announcements False ''2025-01-05T12:00:00'' s1) = Inr anns
     \<and> map (\<lambda>x. map_of x ''id'') anns = [Some (PStr ''a1''), Some (PStr ''a2''), Some (PStr ''65a1'')]
     \<and> delete_announcement ''65a1'' ''jdoe'' s1
         = (Inl (HTTPException 404 ''Announcement not found''), s1)"
  by (simp add: eval_db create_announcement_def delete_announcement_def get_announcements_def
      find_coll_def require_auth_def find_one_def insert_one_def expose_id_def dict_get_def
      opt_val_def Let_def)

end
